theory Spec2Isabelle
  imports Main "HOL-Library.Sublist"
begin

section \<open>Python strings\<close>

text \<open>
  A Python \<open>str\<close> is a sequence of code points. It is modelled as a \<open>string\<close>
  whose characters are the code points below 256 (ASCII and Latin-1); the character
  classes below are Python's on that range. Code points from 256 on are outside
  the model.
\<close>

text \<open>\<open>w in s\<close> for two strings: \<open>w\<close> occurs in \<open>s\<close> as a contiguous block.\<close>

fun py_in :: "string \<Rightarrow> string \<Rightarrow> bool" where
  "py_in w [] = (w = [])"
| "py_in w (c # cs) = (prefix w (c # cs) \<or> py_in w cs)"

text \<open>\<open>any(word in s for word in words)\<close>.\<close>

definition any_in :: "string list \<Rightarrow> string \<Rightarrow> bool" where
  "any_in words s = list_ex (\<lambda>word. py_in word s) words"

text \<open>\<open>s.startswith(p)\<close>.\<close>

definition startswith :: "string \<Rightarrow> string \<Rightarrow> bool" where
  "startswith s p = prefix p s"

text \<open>
  \<open>ch.isspace()\<close>: tab to carriage return, the four separators 0x1C to 0x1F,
  the space, NEL (0x85) and the no-break space (0xA0).
\<close>

definition py_isspace :: "char \<Rightarrow> bool" where
  "py_isspace c =
     (let n = (of_char c :: nat)
      in (9 \<le> n \<and> n \<le> 13) \<or> (28 \<le> n \<and> n \<le> 32) \<or> n = 133 \<or> n = 160)"

text \<open>\<open>s.strip()\<close>: whitespace removed at both ends.\<close>

definition py_strip :: "string \<Rightarrow> string" where
  "py_strip s = rev (dropWhile py_isspace (rev (dropWhile py_isspace s)))"

text \<open>
  \<open>s.lower()\<close>, character by character: \<open>A\<close> to \<open>Z\<close> and the Latin-1 capitals
  0xC0 to 0xDE (the multiplication sign 0xD7 apart) move up by 32; every other
  character stays.
\<close>

definition is_upper :: "char \<Rightarrow> bool" where
  "is_upper c =
     (let n = (of_char c :: nat)
      in (65 \<le> n \<and> n \<le> 90) \<or> (192 \<le> n \<and> n \<le> 222 \<and> n \<noteq> 215))"

text \<open>
  Bit 5 (the value 32) is clear throughout both ranges of capitals, so adding 32
  is setting that bit.
\<close>

definition lower_char :: "char \<Rightarrow> char" where
  "lower_char c =
     (if is_upper c
      then (case c of Char b0 b1 b2 b3 b4 b5 b6 b7 \<Rightarrow> Char b0 b1 b2 b3 b4 True b6 b7)
      else c)"

definition py_lower :: "string \<Rightarrow> string" where
  "py_lower s = map lower_char s"

text \<open>
  \<open>ch.isdigit()\<close>: the decimal digits and, on this range, the superscripts
  two, three (0xB2, 0xB3) and one (0xB9), which are digits but not decimal.
\<close>

definition is_decimal :: "char \<Rightarrow> bool" where
  "is_decimal c = (let n = (of_char c :: nat) in 48 \<le> n \<and> n \<le> 57)"

definition py_isdigit :: "char \<Rightarrow> bool" where
  "py_isdigit c =
     (is_decimal c \<or> (let n = (of_char c :: nat) in n = 178 \<or> n = 179 \<or> n = 185))"

text \<open>
  The first occurrence of a non-empty separator: the text before it and the text
  after it.
\<close>

fun find_sep :: "string \<Rightarrow> string \<Rightarrow> (string \<times> string) option" where
  "find_sep sep [] = None"
| "find_sep sep (c # cs) =
     (if prefix sep (c # cs) then Some ([], drop (length sep) (c # cs))
      else map_option (\<lambda>(a, b). (c # a, b)) (find_sep sep cs))"

text \<open>\<open>s.split(sep, 1)\<close>: one piece when \<open>sep\<close> does not occur, two otherwise.\<close>

definition py_split1 :: "string \<Rightarrow> string \<Rightarrow> string list" where
  "py_split1 s sep = (case find_sep sep s of None \<Rightarrow> [s] | Some (a, b) \<Rightarrow> [a, b])"

text \<open>\<open>s.replace(old, new, 1)\<close>: the first occurrence replaced, if there is one.\<close>

definition py_replace1 :: "string \<Rightarrow> string \<Rightarrow> string \<Rightarrow> string" where
  "py_replace1 s old new = (case find_sep old s of None \<Rightarrow> s | Some (a, b) \<Rightarrow> a @ new @ b)"

text \<open>\<open>str(i)\<close> for an integer.\<close>

fun dec :: "nat \<Rightarrow> string" where
  "dec n = (if n < 10 then [''0123456789'' ! n]
            else dec (n div 10) @ [''0123456789'' ! (n mod 10)])"

declare dec.simps [simp del]

definition py_str :: "int \<Rightarrow> string" where
  "py_str i = (if i < 0 then CHR ''-'' # dec (nat (- i)) else dec (nat i))"

text \<open>
  \<open>int(s)\<close> for a string made of characters that satisfy \<open>isdigit\<close>, the only
  strings the assistant converts: the value of the decimal digits, and
  \<open>ValueError\<close> for the empty string, for a string with a superscript digit and
  for a string of more than 4300 digits, leading zeros counted. The last is the
  interpreter's limit on the length of a numeral
  (\<open>sys.int_info.default_max_str_digits\<close>), which the program leaves at its
  default. Within the limit Python's integers are unbounded.
\<close>

datatype error = IndexError | ValueError | KeyError | OverflowError | OSError

definition digit_val :: "char \<Rightarrow> int" where
  "digit_val c = int (of_char c) - 48"

definition INT_MAX_STR_DIGITS :: nat where
  "INT_MAX_STR_DIGITS = 4300"

definition py_int :: "string \<Rightarrow> error + int" where
  "py_int s =
     (if s \<noteq> [] \<and> list_all is_decimal s \<and> length s \<le> INT_MAX_STR_DIGITS
      then Inr (foldl (\<lambda>a c. 10 * a + digit_val c) 0 s)
      else Inl ValueError)"

text \<open>
  \<open>time.sleep(secs)\<close> for an integer number of seconds, called when the monotonic
  clock reads \<open>now\<close> nanoseconds (CPython 3.11 on Linux). The interpreter converts
  the seconds to a signed 64-bit count of nanoseconds and raises \<open>OverflowError\<close>
  when that does not fit, which is beyond 9223372036 seconds either way; then it
  raises \<open>ValueError\<close> for a negative length. It adds the length to the reading of
  the clock, in 64 bits again, and sleeps until that deadline with
  \<open>clock_nanosleep\<close>, which refuses a deadline that has wrapped around: \<open>OSError\<close>.
  Otherwise it sleeps that long.
\<close>

definition SLEEP_MAX :: int where
  "SLEEP_MAX = 9223372036"

definition PY_TIME_MAX :: int where
  "PY_TIME_MAX = 9223372036854775807"

definition py_sleep :: "nat \<Rightarrow> int \<Rightarrow> error + int" where
  "py_sleep now secs =
     (if secs < - SLEEP_MAX \<or> SLEEP_MAX < secs then Inl OverflowError
      else if secs < 0 then Inl ValueError
      else if PY_TIME_MAX < int now + secs * 1000000000 then Inl OSError
      else Inr secs)"

section \<open>State, environment and effects\<close>

text \<open>
  The commands file, as \<open>json.load\<close> sees it: absent, present but unreadable or
  not JSON (\<open>open\<close> or \<open>json.load\<close> raises), or holding a JSON object of strings,
  which is what \<open>json.dump\<close> writes for the dictionary. A file holding any other
  JSON document is outside the model.
\<close>

datatype file_state = Absent | Corrupt | Holds "string \<rightharpoonup> string"

record state =
  custom_commands :: "string \<rightharpoonup> string"
  commands_file :: file_state

text \<open>
  What the environment does during one call of \<open>process_command\<close>:
  \<^item> \<open>heard k\<close>: the text behind the \<open>k\<close>-th call of \<open>listen_vosk\<close>, recognised or
    typed, before \<open>listen_vosk\<close> normalises it;
  \<^item> \<open>typed\<close>: the line \<open>input("Recipient email: ")\<close> returns;
  \<^item> \<open>clock_time\<close>, \<open>clock_date\<close>: the results of the two \<open>time.strftime\<close> calls;
  \<^item> \<open>disk\<close>: how writing the commands file goes;
  \<^item> \<open>monotonic\<close>: the reading of the monotonic clock, in nanoseconds, when the
    worker of a reminder thread calls \<open>time.sleep\<close>.
\<close>

datatype write_outcome = Written | OpenFailed | DumpFailed

record env =
  heard :: "nat \<Rightarrow> string"
  typed :: string
  clock_time :: string
  clock_date :: string
  disk :: write_outcome
  monotonic :: nat

text \<open>
  The calls a command makes, in order: \<open>speak\<close>, \<open>listen_vosk\<close>, \<open>input\<close> with its
  prompt, \<open>print\<close> of a failure, the three service adapters, and the start of a
  reminder thread. A thread that is started does one of two things: its worker
  sleeps a number of seconds and then speaks a text (\<open>Timer\<close>), or its worker
  raises an exception at once, which ends the thread with nothing spoken
  (\<open>Crashed\<close>). The exception of a worker stays in its thread.
\<close>

datatype event =
    Speak string
  | Listen
  | Input string
  | Log string
  | Weather string
  | Email string string string
  | Wikipedia string
  | Timer int string
  | Crashed error

text \<open>
  How a call ends: it returns, \<open>sys.exit\<close> ends the process with a code, or an
  exception leaves it.
\<close>

datatype outcome = Returned | Exited int | Raised error

type_synonym result = "outcome \<times> event list \<times> state"

definition DEFAULT_CITY :: string where
  "DEFAULT_CITY = ''Chennai''"

text \<open>
  \<open>listen_vosk\<close> (lines 84--109). The audio loop is the recogniser's; both of its
  \<open>return\<close>s give \<open>.strip().lower()\<close> of the text received.
\<close>

definition listen_vosk :: "env \<Rightarrow> nat \<Rightarrow> string" where
  "listen_vosk e k = py_lower (py_strip (heard e k))"

section \<open>The command store\<close>

text \<open>The load at start-up (lines 55--62).\<close>

definition load_custom_commands :: "file_state \<Rightarrow> (string \<rightharpoonup> string)" where
  "load_custom_commands f =
     (case f of Absent \<Rightarrow> Map.empty | Corrupt \<Rightarrow> Map.empty | Holds m \<Rightarrow> m)"

text \<open>
  \<open>save_custom_commands\<close> (lines 64--69). When \<open>open\<close> raises the file is as it was;
  when \<open>json.dump\<close> raises the file has been truncated and holds at most a proper
  prefix of the object's text, which is not JSON. Either exception is printed and
  swallowed; the dictionary in memory stays.
\<close>

definition save_custom_commands :: "env \<Rightarrow> state \<Rightarrow> event list \<times> state" where
  "save_custom_commands e s =
     (case disk e of
        Written \<Rightarrow> ([], s\<lparr>commands_file := Holds (custom_commands s)\<rparr>)
      | OpenFailed \<Rightarrow> ([Log ''Failed to save custom commands:''], s)
      | DumpFailed \<Rightarrow> ([Log ''Failed to save custom commands:''], s\<lparr>commands_file := Corrupt\<rparr>))"

section \<open>The reminder scheduler\<close>

text \<open>
  The worker of \<open>set_reminder\<close> (lines 147--149), as the thread runs it:
  \<open>time.sleep(max(0, minutes) * 60)\<close>, then \<open>speak\<close>. When the sleep raises, the
  text is never spoken.
\<close>

definition worker :: "env \<Rightarrow> string \<Rightarrow> int \<Rightarrow> event" where
  "worker e text minutes =
     (case py_sleep (monotonic e) (max 0 minutes * 60) of
        Inr secs \<Rightarrow> Timer secs (''Reminder: '' @ text)
      | Inl err \<Rightarrow> Crashed err)"

text \<open>
  \<open>set_reminder\<close> (lines 146--151): the thread is started, then the confirmation
  is spoken. Whatever the worker does, the call itself returns. (The process is
  taken to have room for one more thread.)
\<close>

definition set_reminder :: "env \<Rightarrow> string \<Rightarrow> int \<Rightarrow> outcome \<times> event list" where
  "set_reminder e text minutes =
     (Returned,
      [worker e text minutes,
       Speak (''Reminder set for '' @ py_str minutes @ '' minutes from now.'')])"

section \<open>The dispatcher\<close>

text \<open>The weather branch (lines 189--198).\<close>

definition weather_intent :: "env \<Rightarrow> state \<Rightarrow> string \<Rightarrow> result" where
  "weather_intent e s command =
     (if py_in '' in '' command
      then (case py_split1 command '' in '' of
              [_, rest] \<Rightarrow> (Returned, [Weather (py_strip rest)], s)
            | _ \<Rightarrow> (Raised IndexError, [], s))
      else (let city_resp = listen_vosk e 0
            in (Returned,
                [Speak ''Which city do you want the weather for?'', Listen,
                 Weather (if city_resp \<noteq> [] then city_resp else DEFAULT_CITY)],
                s)))"

text \<open>The email branch (lines 201--208).\<close>

definition email_intent :: "env \<Rightarrow> state \<Rightarrow> result" where
  "email_intent e s =
     (let to_addr = py_strip (typed e);
          subject = listen_vosk e 0;
          message = listen_vosk e 1
      in (Returned,
          [Speak ''Who is the recipient? Please type recipient email address:'',
           Input ''Recipient email: '',
           Speak ''What is the subject?'', Listen,
           Speak ''What should I say in the email?'', Listen,
           Email to_addr subject message],
          s))"

text \<open>
  The reminder branch (lines 211--220). The bare \<open>except\<close> covers the conversion
  and the call of \<open>set_reminder\<close> alike.
\<close>

definition reminder_intent :: "env \<Rightarrow> state \<Rightarrow> result" where
  "reminder_intent e s =
     (let text = listen_vosk e 0;
          minutes_text = listen_vosk e 1;
          asked = [Speak ''What should I remind you about?'', Listen,
                   Speak ''In how many minutes should I remind you?'', Listen];
          failed = [Speak ''I couldn't understand the time. Reminder not set.'']
      in case py_int (filter py_isdigit minutes_text) of
           Inl _ \<Rightarrow> (Returned, asked @ failed, s)
         | Inr minutes \<Rightarrow>
             (case set_reminder e text minutes of
                (Returned, evs) \<Rightarrow> (Returned, asked @ evs, s)
              | (_, evs) \<Rightarrow> (Returned, asked @ evs @ failed, s)))"

text \<open>
  The encyclopedia branch (lines 223--235): the first prefix that fits is removed
  once and the rest is trimmed.
\<close>

fun strip_prefix :: "string list \<Rightarrow> string \<Rightarrow> string" where
  "strip_prefix [] q = q"
| "strip_prefix (p # ps) q =
     (if startswith q p then py_strip (py_replace1 q p []) else strip_prefix ps q)"

definition wikipedia_intent :: "env \<Rightarrow> state \<Rightarrow> string \<Rightarrow> result" where
  "wikipedia_intent e s command =
     (let q = strip_prefix [''who is'', ''what is'', ''tell me about''] command
      in if q \<noteq> [] then (Returned, [Wikipedia q], s)
         else (let q2 = listen_vosk e 0
               in (Returned,
                   [Speak ''What would you like to know about?'', Listen]
                   @ (if q2 \<noteq> [] then [Wikipedia q2] else []),
                   s)))"

text \<open>The add-command branch (lines 238--251).\<close>

definition add_command_intent :: "env \<Rightarrow> state \<Rightarrow> result" where
  "add_command_intent e s =
     (let trigger = listen_vosk e 0
      in if trigger = []
         then (Returned,
               [Speak ''What phrase should trigger the command?'', Listen,
                Speak ''No trigger received. Cancelled.''],
               s)
         else (let response = listen_vosk e 1
               in if response = []
                  then (Returned,
                        [Speak ''What phrase should trigger the command?'', Listen,
                         Speak ''What should I respond when you say that?'', Listen,
                         Speak ''No response provided. Cancelled.''],
                        s)
                  else (let s1 = s\<lparr>custom_commands := (custom_commands s)(trigger \<mapsto> response)\<rparr>;
                            (logged, s2) = save_custom_commands e s1
                        in (Returned,
                            [Speak ''What phrase should trigger the command?'', Listen,
                             Speak ''What should I respond when you say that?'', Listen]
                            @ logged
                            @ [Speak (''Custom command added for trigger: '' @ trigger)],
                            s2))))"

text \<open>\<open>process_command\<close> (lines 162--257).\<close>

definition process_command :: "env \<Rightarrow> state \<Rightarrow> string \<Rightarrow> result" where
  "process_command e s command =
     (if command = [] then (Returned, [], s)
      else if any_in [''exit'', ''quit'', ''stop'', ''bye''] command
      then (Exited 0, [Speak ''Goodbye. Exiting now.''], s)
      else (case custom_commands s command of
        Some response \<Rightarrow> (Returned, [Speak response], s)
      | None \<Rightarrow>
      if any_in [''hello'', ''hi'', ''hey''] command
      then (Returned, [Speak ''Hello! How can I help you?''], s)
      else if py_in ''time'' command
      then (Returned, [Speak (''The current time is '' @ clock_time e)], s)
      else if py_in ''date'' command
      then (Returned, [Speak (''Today's date is '' @ clock_date e)], s)
      else if py_in ''weather'' command
      then weather_intent e s command
      else if py_in ''send email'' command \<or> py_in ''email'' command
      then email_intent e s
      else if py_in ''remind me'' command \<or> py_in ''set reminder'' command
      then reminder_intent e s
      else if startswith command ''who is'' \<or> startswith command ''what is''
            \<or> startswith command ''tell me about''
      then wikipedia_intent e s command
      else if py_in ''add command'' command \<or> py_in ''create command'' command
      then add_command_intent e s
      else if py_in ''help'' command \<or> py_in ''commands'' command
      then (Returned,
            [Speak ''You can ask time, date, weather, set reminders, send email, ask Wikipedia, or add custom commands.''],
            s)
      else (Returned,
            [Speak ''Sorry, I didn't understand that. You can say help to get a list of commands.''],
            s)))"

section \<open>Path conditions of the dispatcher\<close>

text \<open>
  The conditions under which \<open>process_command\<close> gets past the exit phrases and
  the custom commands (lines 163--172), and under which it enters the weather
  branch (line 188), the reminder branch (line 210) and the add-command branch
  (line 237): every earlier test of the chain fails and the branch's own holds.
\<close>

definition past_custom :: "state \<Rightarrow> string \<Rightarrow> bool" where
  "past_custom s command \<longleftrightarrow>
     command \<noteq> [] \<and> \<not> any_in [''exit'', ''quit'', ''stop'', ''bye''] command
     \<and> custom_commands s command = None"

definition past_date :: "state \<Rightarrow> string \<Rightarrow> bool" where
  "past_date s command \<longleftrightarrow>
     past_custom s command \<and> \<not> any_in [''hello'', ''hi'', ''hey''] command
     \<and> \<not> py_in ''time'' command \<and> \<not> py_in ''date'' command"

definition weather_branch :: "state \<Rightarrow> string \<Rightarrow> bool" where
  "weather_branch s command \<longleftrightarrow> past_date s command \<and> py_in ''weather'' command"

definition past_email :: "state \<Rightarrow> string \<Rightarrow> bool" where
  "past_email s command \<longleftrightarrow>
     past_date s command \<and> \<not> py_in ''weather'' command
     \<and> \<not> (py_in ''send email'' command \<or> py_in ''email'' command)"

definition reminder_branch :: "state \<Rightarrow> string \<Rightarrow> bool" where
  "reminder_branch s command \<longleftrightarrow>
     past_email s command
     \<and> (py_in ''remind me'' command \<or> py_in ''set reminder'' command)"

definition add_command_branch :: "state \<Rightarrow> string \<Rightarrow> bool" where
  "add_command_branch s command \<longleftrightarrow>
     past_email s command
     \<and> \<not> (py_in ''remind me'' command \<or> py_in ''set reminder'' command)
     \<and> \<not> (startswith command ''who is'' \<or> startswith command ''what is''
            \<or> startswith command ''tell me about'')
     \<and> (py_in ''add command'' command \<or> py_in ''create command'' command)"

text \<open>
  The reminders a run of calls leaves pending, each with its delay in seconds and
  its text; and the reminder threads it starts, pending or crashed.
\<close>

fun timers :: "event list \<Rightarrow> (int \<times> string) list" where
  "timers [] = []"
| "timers (Timer d t # evs) = (d, t) # timers evs"
| "timers (_ # evs) = timers evs"

fun threads :: "event list \<Rightarrow> event list" where
  "threads [] = []"
| "threads (Timer d t # evs) = Timer d t # threads evs"
| "threads (Crashed err # evs) = Crashed err # threads evs"
| "threads (_ # evs) = threads evs"

section \<open>The matching order as the specification lists it\<close>

text \<open>
  The twelve rules of the specification's matching order, each with its
  condition as the specification words it, and the dispatch the specification
  describes: the first rule of the list whose condition holds is the one that
  runs. The action of a rule is the body of the corresponding branch.
\<close>

datatype rule =
    ExitRule | CustomRule | GreetingRule | TimeRule | DateRule | WeatherRule
  | EmailRule | ReminderRule | EncyclopediaRule | AddCommandRule | HelpRule
  | FallbackRule

definition listed_order :: "rule list" where
  "listed_order =
     [ExitRule, CustomRule, GreetingRule, TimeRule, DateRule, WeatherRule,
      EmailRule, ReminderRule, EncyclopediaRule, AddCommandRule, HelpRule,
      FallbackRule]"

fun rule_matches :: "(string \<rightharpoonup> string) \<Rightarrow> string \<Rightarrow> rule \<Rightarrow> bool" where
  "rule_matches m u ExitRule =
     (py_in ''exit'' u \<or> py_in ''quit'' u \<or> py_in ''stop'' u \<or> py_in ''bye'' u)"
| "rule_matches m u CustomRule = (u \<in> dom m)"
| "rule_matches m u GreetingRule = (py_in ''hello'' u \<or> py_in ''hi'' u \<or> py_in ''hey'' u)"
| "rule_matches m u TimeRule = py_in ''time'' u"
| "rule_matches m u DateRule = py_in ''date'' u"
| "rule_matches m u WeatherRule = py_in ''weather'' u"
| "rule_matches m u EmailRule = (py_in ''send email'' u \<or> py_in ''email'' u)"
| "rule_matches m u ReminderRule = (py_in ''remind me'' u \<or> py_in ''set reminder'' u)"
| "rule_matches m u EncyclopediaRule =
     (prefix ''who is'' u \<or> prefix ''what is'' u \<or> prefix ''tell me about'' u)"
| "rule_matches m u AddCommandRule = (py_in ''add command'' u \<or> py_in ''create command'' u)"
| "rule_matches m u HelpRule = (py_in ''help'' u \<or> py_in ''commands'' u)"
| "rule_matches m u FallbackRule = True"

fun run_rule :: "rule \<Rightarrow> env \<Rightarrow> state \<Rightarrow> string \<Rightarrow> result" where
  "run_rule ExitRule e s u = (Exited 0, [Speak ''Goodbye. Exiting now.''], s)"
| "run_rule CustomRule e s u =
     (case custom_commands s u of
        Some response \<Rightarrow> (Returned, [Speak response], s)
      | None \<Rightarrow> (Raised KeyError, [], s))"
| "run_rule GreetingRule e s u = (Returned, [Speak ''Hello! How can I help you?''], s)"
| "run_rule TimeRule e s u = (Returned, [Speak (''The current time is '' @ clock_time e)], s)"
| "run_rule DateRule e s u = (Returned, [Speak (''Today's date is '' @ clock_date e)], s)"
| "run_rule WeatherRule e s u = weather_intent e s u"
| "run_rule EmailRule e s u = email_intent e s"
| "run_rule ReminderRule e s u = reminder_intent e s"
| "run_rule EncyclopediaRule e s u = wikipedia_intent e s u"
| "run_rule AddCommandRule e s u = add_command_intent e s"
| "run_rule HelpRule e s u =
     (Returned,
      [Speak ''You can ask time, date, weather, set reminders, send email, ask Wikipedia, or add custom commands.''],
      s)"
| "run_rule FallbackRule e s u =
     (Returned,
      [Speak ''Sorry, I didn't understand that. You can say help to get a list of commands.''],
      s)"

definition first_match :: "(string \<rightharpoonup> string) \<Rightarrow> string \<Rightarrow> rule option" where
  "first_match m u = find (rule_matches m u) listed_order"

definition spec_dispatch :: "env \<Rightarrow> state \<Rightarrow> string \<Rightarrow> result" where
  "spec_dispatch e s u =
     (case first_match (custom_commands s) u of
        Some r \<Rightarrow> run_rule r e s u
      | None \<Rightarrow> (Returned, [], s))"

section \<open>The invariant of the command store\<close>

text \<open>
  A key is trimmed when it neither starts nor ends with whitespace, and lowercase
  when it has no capital. The invariant of the mapping: every key is non-empty,
  lowercase and trimmed.
\<close>

definition trimmed :: "string \<Rightarrow> bool" where
  "trimmed k = (case k of [] \<Rightarrow> True | c # _ \<Rightarrow> \<not> py_isspace c \<and> \<not> py_isspace (last k))"

definition lowercase :: "string \<Rightarrow> bool" where
  "lowercase k = list_all (\<lambda>c. \<not> is_upper c) k"

definition normalized_key :: "string \<Rightarrow> bool" where
  "normalized_key k \<longleftrightarrow> k \<noteq> [] \<and> lowercase k \<and> trimmed k"

definition normalized_keys :: "(string \<rightharpoonup> string) \<Rightarrow> bool" where
  "normalized_keys m \<longleftrightarrow> (\<forall>k \<in> dom m. normalized_key k)"

section \<open>Sample runs\<close>

text \<open>
  The state right after start-up on a given commands file, and an environment
  whose first \<open>listen_vosk\<close> receives one text and every later one another, on a
  machine that has been up for an hour.
\<close>

definition start_up :: "file_state \<Rightarrow> state" where
  "start_up f = \<lparr>custom_commands = load_custom_commands f, commands_file = f\<rparr>"

definition answers :: "string \<Rightarrow> string \<Rightarrow> nat \<Rightarrow> string" where
  "answers first later k = (if k = 0 then first else later)"

definition sample_env :: "string \<Rightarrow> string \<Rightarrow> write_outcome \<Rightarrow> env" where
  "sample_env first later w =
     \<lparr>heard = answers first later, typed = ''friend@example.org'',
      clock_time = ''09:30 AM'', clock_date = ''November 04, 2026'', disk = w,
      monotonic = 3600000000000\<rparr>"

section \<open>Facts about the string operations\<close>

lemma py_in_sublist: "py_in w s \<longleftrightarrow> sublist w s"
  by (induction s) (auto simp: sublist_Cons_right)

lemma prefix_within:
  "prefix p (xs @ ys) \<Longrightarrow> length p \<le> length xs \<Longrightarrow> prefix p xs"
  by (auto simp: prefix_append)

lemma find_sep_first:
  assumes "sep \<noteq> []" and "\<not> py_in sep (a @ butlast sep)"
  shows "find_sep sep (a @ sep @ b) = Some (a, b)"
  using assms(2)
proof (induction a)
  case Nil
  from assms(1) obtain c cs where sep: "sep = c # cs" by (cases sep) auto
  show ?case by (simp add: sep)
next
  case (Cons x a)
  from Cons.prems have no_here: "\<not> prefix sep (x # a @ butlast sep)"
    and no_later: "\<not> py_in sep (a @ butlast sep)" by simp_all
  have "\<not> prefix sep (x # a @ sep @ b)"
  proof
    assume p: "prefix sep (x # a @ sep @ b)"
    have split: "x # a @ sep @ b = (x # a @ butlast sep) @ (last sep # b)"
      using assms(1) by simp
    have "length sep \<le> length (x # a @ butlast sep)" by simp
    with p have "prefix sep (x # a @ butlast sep)"
      unfolding split by (rule prefix_within)
    with no_here show False ..
  qed
  with Cons.IH [OF no_later] show ?case by simp
qed

lemma py_in_length: "py_in w s \<Longrightarrow> length w \<le> length s"
  by (induction s) (auto dest: prefix_length_le)

lemma first_sep_exists:
  assumes "sep \<noteq> []"
  shows "py_in sep s \<Longrightarrow> \<exists>a b. s = a @ sep @ b \<and> \<not> py_in sep (a @ butlast sep)"
proof (induction s)
  case Nil
  with assms show ?case by simp
next
  case (Cons c cs)
  show ?case
  proof (cases "prefix sep (c # cs)")
    case True
    then obtain b where "c # cs = [] @ sep @ b" by (auto simp: prefix_def)
    moreover have "\<not> py_in sep ([] @ butlast sep)"
    proof
      assume "py_in sep ([] @ butlast sep)"
      then have "py_in sep (butlast sep)" by simp
      then have le: "length sep \<le> length (butlast sep)" by (rule py_in_length)
      from assms have "length (butlast sep) < length sep" by (cases sep) simp_all
      with le show False by (rule leD [THEN notE])
    qed
    ultimately show ?thesis by blast
  next
    case False
    with Cons.prems have "py_in sep cs" by simp
    with Cons.IH obtain a b where cs: "cs = a @ sep @ b"
      and first: "\<not> py_in sep (a @ butlast sep)" by blast
    have "\<not> prefix sep (c # a @ butlast sep)"
    proof
      assume "prefix sep (c # a @ butlast sep)"
      then have "prefix sep ((c # a @ butlast sep) @ (last sep # b))" by (rule prefix_prefix)
      moreover have "(c # a @ butlast sep) @ (last sep # b) = c # a @ sep @ b"
        using assms by simp
      ultimately have "prefix sep (c # a @ sep @ b)" by (simp only:)
      with cs False show False by simp
    qed
    with first have "\<not> py_in sep ((c # a) @ butlast sep)" by simp
    moreover from cs have "c # cs = (c # a) @ sep @ b" by simp
    ultimately show ?thesis by blast
  qed
qed

lemma trimmed_iff:
  "trimmed k \<longleftrightarrow> k = [] \<or> (\<not> py_isspace (hd k) \<and> \<not> py_isspace (last k))"
  by (cases k) (simp_all add: trimmed_def)

lemma trimmed_strip: "trimmed (py_strip s)"
proof -
  define d where "d = dropWhile py_isspace s"
  define r where "r = dropWhile py_isspace (rev d)"
  have strip: "py_strip s = rev r" by (simp add: py_strip_def d_def r_def)
  show ?thesis
  proof (cases "r = []")
    case True
    then show ?thesis by (simp add: strip trimmed_iff)
  next
    case False
    then have hd_r: "\<not> py_isspace (hd r)" unfolding r_def by (rule hd_dropWhile)
    have "suffix r (rev d)" unfolding r_def by (rule suffix_dropWhile)
    then obtain zs where "rev d = zs @ r" by (auto simp: suffix_def)
    then have d: "d = rev r @ rev zs" by (metis rev_append rev_rev_ident)
    with False have "d \<noteq> []" and hd_eq: "hd (rev r) = hd d" by simp_all
    then have "\<not> py_isspace (hd d)" unfolding d_def by (simp add: hd_dropWhile)
    with hd_eq hd_r False show ?thesis by (simp add: strip trimmed_iff last_rev)
  qed
qed

lemma space_lower: "py_isspace (lower_char c) = py_isspace c"
  by (cases c) (auto simp: lower_char_def is_upper_def py_isspace_def Let_def split: if_splits)

lemma upper_lower: "\<not> is_upper (lower_char c)"
  by (cases c) (auto simp: lower_char_def is_upper_def Let_def split: if_splits)

lemma trimmed_lower: "trimmed k \<Longrightarrow> trimmed (py_lower k)"
  by (cases "k = []") (simp_all add: trimmed_iff py_lower_def hd_map last_map space_lower)

lemma lowercase_lower: "lowercase (py_lower k)"
  by (simp add: lowercase_def py_lower_def list_all_iff upper_lower)

lemma listen_normalized: "listen_vosk e k \<noteq> [] \<Longrightarrow> normalized_key (listen_vosk e k)"
  by (simp add: normalized_key_def listen_vosk_def lowercase_lower trimmed_lower trimmed_strip)

section \<open>Facts about the dispatcher\<close>

lemma weather_branch_runs:
  "weather_branch s c \<Longrightarrow> process_command e s c = weather_intent e s c"
  by (simp add: weather_branch_def past_date_def past_custom_def process_command_def)

lemma reminder_branch_runs:
  "reminder_branch s c \<Longrightarrow> process_command e s c = reminder_intent e s"
  by (simp add: reminder_branch_def past_email_def past_date_def past_custom_def
      process_command_def)

lemma add_command_branch_runs:
  "add_command_branch s c \<Longrightarrow> process_command e s c = add_command_intent e s"
  by (simp add: add_command_branch_def past_email_def past_date_def past_custom_def
      process_command_def)

lemma weather_intent_city:
  assumes "\<not> py_in '' in '' (a @ '' in'')"
  shows "weather_intent e s (a @ '' in '' @ b) = (Returned, [Weather (py_strip b)], s)"
proof -
  have "sublist '' in '' (a @ '' in '' @ b)" by (rule sublist_appendI)
  then have occurs: "py_in '' in '' (a @ '' in '' @ b)" by (simp only: py_in_sublist)
  from assms have "\<not> py_in '' in '' (a @ butlast '' in '')" by simp
  with find_sep_first [of "'' in ''" a b]
  have "find_sep '' in '' (a @ '' in '' @ b) = Some (a, b)" by simp
  with occurs show ?thesis
    by (simp only: weather_intent_def py_split1_def if_True option.case prod.case list.case)
qed

lemma first_match_chain:
  "first_match m u =
     (if py_in ''exit'' u \<or> py_in ''quit'' u \<or> py_in ''stop'' u \<or> py_in ''bye'' u then Some ExitRule
      else if u \<in> dom m then Some CustomRule
      else if py_in ''hello'' u \<or> py_in ''hi'' u \<or> py_in ''hey'' u then Some GreetingRule
      else if py_in ''time'' u then Some TimeRule
      else if py_in ''date'' u then Some DateRule
      else if py_in ''weather'' u then Some WeatherRule
      else if py_in ''send email'' u \<or> py_in ''email'' u then Some EmailRule
      else if py_in ''remind me'' u \<or> py_in ''set reminder'' u then Some ReminderRule
      else if prefix ''who is'' u \<or> prefix ''what is'' u \<or> prefix ''tell me about'' u
      then Some EncyclopediaRule
      else if py_in ''add command'' u \<or> py_in ''create command'' u then Some AddCommandRule
      else if py_in ''help'' u \<or> py_in ''commands'' u then Some HelpRule
      else Some FallbackRule)"
  unfolding first_match_def listed_order_def
  by (simp only: find.simps rule_matches.simps if_True)

lemma process_command_refines:
  assumes "u \<noteq> []"
  shows "process_command e s u = spec_dispatch e s u"
proof (cases "custom_commands s u")
  case None
  with assms show ?thesis
    unfolding process_command_def spec_dispatch_def first_match_chain any_in_def startswith_def
    by (simp add: domIff)
next
  case (Some r)
  with assms show ?thesis
    unfolding process_command_def spec_dispatch_def first_match_chain any_in_def startswith_def
    by (simp add: domIff)
qed

lemma py_in_nonempty: "py_in w u \<Longrightarrow> w \<noteq> [] \<Longrightarrow> u \<noteq> []"
  by (cases u) auto

lemma weather_intent_state: "snd (snd (weather_intent e s c)) = s"
  by (simp add: weather_intent_def Let_def split: list.splits)

lemma email_intent_state: "snd (snd (email_intent e s)) = s"
  by (simp add: email_intent_def Let_def)

lemma reminder_intent_state: "snd (snd (reminder_intent e s)) = s"
  by (simp add: reminder_intent_def set_reminder_def Let_def split: sum.splits)

lemma wikipedia_intent_state: "snd (snd (wikipedia_intent e s c)) = s"
  by (simp add: wikipedia_intent_def Let_def)

lemma add_command_intent_store:
  "custom_commands (snd (snd (add_command_intent e s))) =
     (if listen_vosk e 0 \<noteq> [] \<and> listen_vosk e 1 \<noteq> []
      then (custom_commands s)(listen_vosk e 0 \<mapsto> listen_vosk e 1)
      else custom_commands s)"
  by (simp add: add_command_intent_def save_custom_commands_def Let_def
      split: write_outcome.splits)


lemma run_rule_state:
  "snd (snd (run_rule r e s u)) = s
   \<or> snd (snd (run_rule r e s u)) = snd (snd (add_command_intent e s))"
  by (cases r)
     (simp_all add: weather_intent_state email_intent_state reminder_intent_state
        wikipedia_intent_state split: option.splits)

lemma process_command_state:
  "snd (snd (process_command e s u)) = s
   \<or> snd (snd (process_command e s u)) = snd (snd (add_command_intent e s))"
proof (cases "u = []")
  case True
  then show ?thesis by (simp add: process_command_def)
next
  case False
  then have "process_command e s u = spec_dispatch e s u"
    by (rule process_command_refines)
  then show ?thesis
    using run_rule_state [of _ e s u]
    by (simp add: spec_dispatch_def split: option.splits)
qed


lemma normalized_keys_update:
  "normalized_keys m \<Longrightarrow> normalized_key k \<Longrightarrow> normalized_keys (m(k \<mapsto> v))"
  by (simp add: normalized_keys_def)

lemma add_command_intent_keeps:
  assumes "normalized_keys (custom_commands s)"
  shows "normalized_keys (custom_commands (snd (snd (add_command_intent e s))))"
proof (cases "listen_vosk e 0 \<noteq> [] \<and> listen_vosk e 1 \<noteq> []")
  case True
  then have key: "normalized_key (listen_vosk e 0)" by (simp add: listen_normalized)
  from True have eq: "custom_commands (snd (snd (add_command_intent e s)))
      = (custom_commands s)(listen_vosk e 0 \<mapsto> listen_vosk e 1)"
    by (simp add: add_command_intent_store)
  show ?thesis unfolding eq using assms key by (rule normalized_keys_update)
next
  case False
  then have eq: "custom_commands (snd (snd (add_command_intent e s))) = custom_commands s"
    by (auto simp: add_command_intent_store)
  show ?thesis unfolding eq by (rule assms)
qed

lemma good_morning_key: "normalized_key ''good morning''"
  by (simp add: normalized_key_def lowercase_def trimmed_def is_upper_def py_isspace_def)

section \<open>Facts about the reminder branch\<close>

lemma digit_char:
  assumes "k < 10"
  shows "digit_val (''0123456789'' ! k) = int k" and "is_decimal (''0123456789'' ! k)"
proof -
  from assms have "k = 0 \<or> k = 1 \<or> k = 2 \<or> k = 3 \<or> k = 4 \<or> k = 5 \<or> k = 6 \<or> k = 7
      \<or> k = 8 \<or> k = 9"
    by arith
  then show "digit_val (''0123456789'' ! k) = int k" and "is_decimal (''0123456789'' ! k)"
    by (auto simp: digit_val_def is_decimal_def)
qed

lemma dec_decimal: "list_all is_decimal (dec n)"
proof (induction n rule: dec.induct)
  case (1 n)
  show ?case
  proof (cases "n < 10")
    case True
    then show ?thesis by (simp add: dec.simps [of n] digit_char)
  next
    case False
    with "1" show ?thesis by (simp add: dec.simps [of n] digit_char)
  qed
qed

lemma dec_not_empty: "dec n \<noteq> []"
  by (simp add: dec.simps [of n])

lemma value_dec:
  assumes "foldl (\<lambda>a c. 10 * a + digit_val c) 0 zs = 0"
  shows "foldl (\<lambda>a c. 10 * a + digit_val c) 0 (zs @ dec n) = int n"
proof (induction n rule: dec.induct)
  case (1 n)
  show ?case
  proof (cases "n < 10")
    case True
    with assms show ?thesis by (simp add: dec.simps [of n] digit_char)
  next
    case False
    with "1" have "foldl (\<lambda>a c. 10 * a + digit_val c) 0 (zs @ dec (n div 10)) = int (n div 10)"
      by simp
    with False show ?thesis
      by (simp add: dec.simps [of n] digit_char zdiv_int zmod_int)
  qed
qed

lemma value_zeros: "foldl (\<lambda>a c. 10 * a + digit_val c) 0 (replicate k (CHR ''0'')) = 0"
  by (induction k) (simp_all add: digit_val_def)

lemma py_int_numeral:
  assumes "k + length (dec n) \<le> 4300"
  shows "py_int (replicate k (CHR ''0'') @ dec n) = Inr (int n)"
proof -
  have "list_all is_decimal (replicate k (CHR ''0''))"
    by (simp add: list_all_iff is_decimal_def)
  moreover have "foldl (\<lambda>a c. 10 * a + digit_val c) 0 (replicate k (CHR ''0'') @ dec n) = int n"
    by (rule value_dec [OF value_zeros])
  ultimately show ?thesis
    using assms
    by (simp add: py_int_def INT_MAX_STR_DIGITS_def dec_not_empty dec_decimal
        del: foldl_append)
qed

lemma py_int_refuses:
  "s = [] \<or> \<not> list_all is_decimal s \<or> 4300 < length s \<Longrightarrow> py_int s = Inl ValueError"
  by (auto simp: py_int_def INT_MAX_STR_DIGITS_def)

text \<open>Every non-empty string of decimal digits is a numeral after leading zeros.\<close>

lemma decimal_char:
  assumes "is_decimal c"
  shows "\<exists>d<10. c = ''0123456789'' ! d"
proof -
  define n where "n = (of_char c :: nat)"
  from assms have "48 \<le> n" and "n \<le> 57" by (simp_all add: is_decimal_def n_def Let_def)
  then have d: "n - 48 < 10" and n: "n = 48 + (n - 48)" by arith+
  from d have "digit_val (''0123456789'' ! (n - 48)) = int (n - 48)" by (rule digit_char(1))
  then have "int (of_char (''0123456789'' ! (n - 48))) = int 48 + int (n - 48)"
    by (simp only: digit_val_def)
  then have "(of_char (''0123456789'' ! (n - 48)) :: nat) = 48 + (n - 48)"
    by (simp only: of_nat_add [symmetric] of_nat_eq_iff)
  with n have "(of_char c :: nat) = of_char (''0123456789'' ! (n - 48))"
    by (simp only: n_def [symmetric])
  then have "c = ''0123456789'' ! (n - 48)" by (simp only: of_char_eq_iff)
  with d show ?thesis by blast
qed

lemma dec_digit: "d < 10 \<Longrightarrow> dec d = [''0123456789'' ! d]"
  by (simp add: dec.simps [of d])

lemma dec_step: "0 < n \<Longrightarrow> d < 10 \<Longrightarrow> dec (10 * n + d) = dec n @ [''0123456789'' ! d]"
  by (simp add: dec.simps [of "10 * n + d"])

lemma decimal_numeral:
  "s \<noteq> [] \<Longrightarrow> list_all is_decimal s \<Longrightarrow> \<exists>k n. s = replicate k (CHR ''0'') @ dec n"
proof (induction s rule: rev_induct)
  case Nil
  then show ?case by simp
next
  case (snoc c xs)
  from snoc.prems have "is_decimal c" by simp
  then obtain d where d: "d < 10" and c: "c = ''0123456789'' ! d"
    using decimal_char by blast
  show ?case
  proof (cases "xs = []")
    case True
    with d c have "xs @ [c] = replicate 0 (CHR ''0'') @ dec d" by (simp add: dec_digit)
    then show ?thesis by blast
  next
    case False
    with snoc obtain k n where xs: "xs = replicate k (CHR ''0'') @ dec n" by auto
    show ?thesis
    proof (cases "n = 0")
      case True
      have "dec 0 = [CHR ''0'']" by (simp add: dec.simps [of 0])
      with True xs have "xs = replicate (Suc k) (CHR ''0'')"
        by (simp add: replicate_append_same)
      with d c have "xs @ [c] = replicate (Suc k) (CHR ''0'') @ dec d"
        by (simp only: dec_digit)
      then show ?thesis by blast
    next
      case False
      with d c xs have "xs @ [c] = replicate k (CHR ''0'') @ dec (10 * n + d)"
        by (simp add: dec_step)
      then show ?thesis by blast
    qed
  qed
qed

text \<open>A string of decimal digits is heard as it is, and all of it is kept.\<close>

lemma decimal_plain: "is_decimal c \<Longrightarrow> \<not> py_isspace c \<and> \<not> is_upper c \<and> py_isdigit c"
  by (auto simp: is_decimal_def py_isspace_def is_upper_def py_isdigit_def Let_def)

lemma dropWhile_none: "\<forall>x \<in> set xs. \<not> P x \<Longrightarrow> dropWhile P xs = xs"
  by (cases xs) simp_all

lemma decimal_answer:
  assumes "list_all is_decimal a"
  shows "filter py_isdigit (py_lower (py_strip a)) = a"
proof -
  from assms have plain: "\<forall>c \<in> set a. \<not> py_isspace c \<and> \<not> is_upper c \<and> py_isdigit c"
    by (simp add: list_all_iff decimal_plain)
  then have "dropWhile py_isspace a = a" by (simp add: dropWhile_none)
  moreover from plain have "dropWhile py_isspace (rev a) = rev a" by (simp add: dropWhile_none)
  ultimately have "py_strip a = a" by (simp add: py_strip_def)
  moreover from plain have "py_lower a = a"
    by (simp add: py_lower_def lower_char_def map_idI)
  moreover from plain have "filter py_isdigit a = a" by simp
  ultimately show ?thesis by simp
qed

text \<open>What the worker does, by the size of the minutes.\<close>

lemma worker_sleeps:
  "int (monotonic e) + max 0 m * 60 * 1000000000 \<le> PY_TIME_MAX
   \<Longrightarrow> worker e text m = Timer (max 0 m * 60) (''Reminder: '' @ text)"
  by (simp add: worker_def py_sleep_def SLEEP_MAX_def PY_TIME_MAX_def max_def)

lemma worker_refused:
  "m \<le> 153722867 \<Longrightarrow> PY_TIME_MAX < int (monotonic e) + max 0 m * 60 * 1000000000
   \<Longrightarrow> worker e text m = Crashed OSError"
  by (auto simp: worker_def py_sleep_def SLEEP_MAX_def PY_TIME_MAX_def max_def
      split: if_splits)

lemma worker_crashes: "153722867 < m \<Longrightarrow> worker e text m = Crashed OverflowError"
  by (simp add: worker_def py_sleep_def SLEEP_MAX_def max_def)

lemma threads_worker: "threads (worker e text m # evs) = worker e text m # threads evs"
  by (simp add: worker_def split: sum.splits)

lemma sample_clock: "monotonic (sample_env a b w) = 3600000000000"
  by (simp add: sample_env_def)

lemma reminder_intent_result:
  "reminder_intent e s =
     (case py_int (filter py_isdigit (listen_vosk e 1)) of
        Inl _ \<Rightarrow>
          (Returned,
           [Speak ''What should I remind you about?'', Listen,
            Speak ''In how many minutes should I remind you?'', Listen,
            Speak ''I couldn't understand the time. Reminder not set.''],
           s)
      | Inr m \<Rightarrow>
          (Returned,
           [Speak ''What should I remind you about?'', Listen,
            Speak ''In how many minutes should I remind you?'', Listen,
            worker e (listen_vosk e 0) m,
            Speak (''Reminder set for '' @ py_str m @ '' minutes from now.'')],
           s))"
  by (simp add: reminder_intent_def set_reminder_def Let_def split: sum.splits)

lemma reminder_cancelled:
  assumes "reminder_branch s u"
    and "py_int (filter py_isdigit (listen_vosk e 1)) = Inl err"
  shows "process_command e s u =
     (Returned,
      [Speak ''What should I remind you about?'', Listen,
       Speak ''In how many minutes should I remind you?'', Listen,
       Speak ''I couldn't understand the time. Reminder not set.''],
      s)"
  unfolding reminder_branch_runs [OF assms(1)] reminder_intent_result assms(2) by simp

lemma reminder_scheduled:
  assumes "reminder_branch s u"
    and "py_int (filter py_isdigit (listen_vosk e 1)) = Inr m"
  shows "process_command e s u =
     (Returned,
      [Speak ''What should I remind you about?'', Listen,
       Speak ''In how many minutes should I remind you?'', Listen,
       worker e (listen_vosk e 0) m,
       Speak (''Reminder set for '' @ py_str m @ '' minutes from now.'')],
      s)"
  unfolding reminder_branch_runs [OF assms(1)] reminder_intent_result assms(2) by simp

lemma listen_sample_first:
  "listen_vosk (sample_env a b w) 0 = py_lower (py_strip a)"
  by (simp add: listen_vosk_def sample_env_def answers_def)

lemma listen_sample_later:
  "k \<noteq> 0 \<Longrightarrow> listen_vosk (sample_env a b w) k = py_lower (py_strip b)"
  by (simp add: listen_vosk_def sample_env_def answers_def)

lemma remind_me_branch: "reminder_branch (start_up Absent) ''remind me''"
  by (simp add: reminder_branch_def past_email_def past_date_def past_custom_def any_in_def
      start_up_def load_custom_commands_def)

lemma heard_call_mom: "py_lower (py_strip ''call mom'') = ''call mom''"
  by (simp add: py_strip_def py_isspace_def py_lower_def lower_char_def is_upper_def)

lemma digits_no_idea: "filter py_isdigit (py_lower (py_strip ''no idea'')) = []"
  by (simp add: py_strip_def py_isspace_def py_lower_def lower_char_def is_upper_def
      py_isdigit_def is_decimal_def)

lemma digits_in_15_minutes:
  "filter py_isdigit (py_lower (py_strip ''in 15 minutes'')) = ''15''"
  by (simp add: py_strip_def py_isspace_def py_lower_def lower_char_def is_upper_def
      py_isdigit_def is_decimal_def)

lemma digits_uh_twenty: "filter py_isdigit (py_lower (py_strip ''uh twenty'')) = []"
  by (simp add: py_strip_def py_isspace_def py_lower_def lower_char_def is_upper_def
      py_isdigit_def is_decimal_def)

lemma digits_uh_20: "filter py_isdigit (py_lower (py_strip ''uh 20'')) = ''20''"
  by (simp add: py_strip_def py_isspace_def py_lower_def lower_char_def is_upper_def
      py_isdigit_def is_decimal_def)

lemma digits_1_hour_30: "filter py_isdigit (py_lower (py_strip ''1 hour 30'')) = ''130''"
  by (simp add: py_strip_def py_isspace_def py_lower_def lower_char_def is_upper_def
      py_isdigit_def is_decimal_def)

lemma digits_5_squared:
  "filter py_isdigit (py_lower (py_strip [CHR ''5'', CHR 0xB2])) = [CHR ''5'', CHR 0xB2]"
  by (simp add: py_strip_def py_isspace_def py_lower_def lower_char_def is_upper_def
      py_isdigit_def is_decimal_def)

lemma dec_15: "dec 15 = ''15''" and dec_20: "dec 20 = ''20''" and dec_130: "dec 130 = ''130''"
  by (simp_all add: dec.simps)

lemma dec_153722867: "dec 153722867 = ''153722867''"
  by (simp add: dec.simps)

lemma dec_153722868: "dec 153722868 = ''153722868''"
  by (simp add: dec.simps)

section \<open>Facts about the add-command branch\<close>

lemma add_command_sample: "add_command_branch (start_up Absent) ''add command''"
  by (simp add: add_command_branch_def past_email_def past_date_def past_custom_def any_in_def
      startswith_def start_up_def load_custom_commands_def)

lemma heard_good_morning: "py_lower (py_strip '' Good Morning '') = ''good morning''"
  by (simp add: py_strip_def py_isspace_def py_lower_def lower_char_def is_upper_def)

lemma heard_hello_there: "py_lower (py_strip ''Hello there'') = ''hello there''"
  by (simp add: py_strip_def py_isspace_def py_lower_def lower_char_def is_upper_def)

lemma heard_nothing: "py_lower (py_strip []) = []" and heard_blank: "py_lower (py_strip ''  '') = []"
  by (simp_all add: py_strip_def py_isspace_def py_lower_def)

lemma add_command_intent_upsert:
  assumes "listen_vosk e 0 \<noteq> []" and "listen_vosk e 1 \<noteq> []"
  shows "add_command_intent e s =
     (Returned,
      [Speak ''What phrase should trigger the command?'', Listen,
       Speak ''What should I respond when you say that?'', Listen]
      @ fst (save_custom_commands e
               (s\<lparr>custom_commands := (custom_commands s)(listen_vosk e 0 \<mapsto> listen_vosk e 1)\<rparr>))
      @ [Speak (''Custom command added for trigger: '' @ listen_vosk e 0)],
      snd (save_custom_commands e
             (s\<lparr>custom_commands := (custom_commands s)(listen_vosk e 0 \<mapsto> listen_vosk e 1)\<rparr>)))"
  using assms by (simp add: add_command_intent_def Let_def split_beta)

section \<open>Custom commands come before the built-in rules\<close>

text \<open>
  Claim C1, as amended. For every non-empty utterance \<open>u\<close> that contains none of
  the exit phrases and is a key of the custom commands with response \<open>r\<close>,
  \<open>process_command\<close> speaks exactly \<open>r\<close> and returns; whatever built-in keywords
  \<open>u\<close> contains, nothing else is spoken or called and the state is as before.
\<close>

theorem custom_command_first:
  assumes "u \<noteq> []"
    and "\<not> any_in [''exit'', ''quit'', ''stop'', ''bye''] u"
    and "custom_commands s u = Some r"
  shows "process_command e s u = (Returned, [Speak r], s)"
  using assms by (simp add: process_command_def)

text \<open>
  An instance: the key \<open>hello\<close>, which is also a greeting keyword, gets the stored
  response and not the greeting.
\<close>

theorem custom_command_first_witness:
  "''hello'' \<noteq> []
   \<and> \<not> any_in [''exit'', ''quit'', ''stop'', ''bye''] ''hello''
   \<and> custom_commands (start_up (Holds [''hello'' \<mapsto> ''general kenobi''])) ''hello''
       = Some ''general kenobi''
   \<and> process_command (sample_env [] [] Written)
        (start_up (Holds [''hello'' \<mapsto> ''general kenobi''])) ''hello''
       = (Returned, [Speak ''general kenobi''],
          start_up (Holds [''hello'' \<mapsto> ''general kenobi'']))"
proof -
  have a: "''hello'' \<noteq> []" by simp
  have b: "\<not> any_in [''exit'', ''quit'', ''stop'', ''bye''] ''hello''"
    by (simp add: any_in_def)
  have c: "custom_commands (start_up (Holds [''hello'' \<mapsto> ''general kenobi''])) ''hello''
       = Some ''general kenobi''"
    by (simp add: start_up_def load_custom_commands_def)
  from a b c custom_command_first [OF a b c] show ?thesis by blast
qed

text \<open>
  The claim as stated holds for every utterance. It fails at the empty one: a
  commands file with the key \<open>""\<close> registers the empty trigger at start-up, and
  the empty utterance, which has no exit phrase in it, is dropped by the first
  test of \<open>process_command\<close> with nothing spoken.
\<close>

theorem empty_trigger_counterexample:
  "\<not> any_in [''exit'', ''quit'', ''stop'', ''bye''] []
   \<and> custom_commands (start_up (Holds [[] \<mapsto> ''hi''])) [] = Some ''hi''
   \<and> process_command (sample_env [] [] Written) (start_up (Holds [[] \<mapsto> ''hi''])) []
       = (Returned, [], start_up (Holds [[] \<mapsto> ''hi'']))"
  by (simp add: any_in_def start_up_def load_custom_commands_def process_command_def)

section \<open>The first matching rule wins\<close>

text \<open>
  Claim C2, as amended. For every non-empty utterance, \<open>process_command\<close> does
  what the specification's matching order prescribes: the action of the first
  rule of the list whose condition holds, whichever later conditions hold too.
  In particular an utterance with both \<open>bye\<close> and \<open>hello\<close> in it ends the process
  with code 0, and an utterance with both \<open>hello\<close> and \<open>time\<close> in it, no exit phrase
  in it and not a key of the custom commands, gets the greeting.
\<close>

theorem first_match_wins:
  assumes "u \<noteq> []"
  shows "process_command e s u = spec_dispatch e s u
    \<and> (py_in ''bye'' u \<and> py_in ''hello'' u
        \<longrightarrow> process_command e s u = (Exited 0, [Speak ''Goodbye. Exiting now.''], s))
    \<and> (py_in ''hello'' u \<and> py_in ''time'' u
        \<and> \<not> any_in [''exit'', ''quit'', ''stop'', ''bye''] u \<and> custom_commands s u = None
        \<longrightarrow> process_command e s u = (Returned, [Speak ''Hello! How can I help you?''], s))"
  using assms process_command_refines [OF assms, of e s]
  by (simp add: process_command_def any_in_def)

text \<open>Two instances, one for each of the particular cases.\<close>

theorem first_match_wins_witness:
  "''hello what time is it'' \<noteq> []
   \<and> py_in ''hello'' ''hello what time is it'' \<and> py_in ''time'' ''hello what time is it''
   \<and> \<not> any_in [''exit'', ''quit'', ''stop'', ''bye''] ''hello what time is it''
   \<and> custom_commands (start_up Absent) ''hello what time is it'' = None
   \<and> process_command (sample_env [] [] Written) (start_up Absent) ''hello what time is it''
       = (Returned, [Speak ''Hello! How can I help you?''], start_up Absent)
   \<and> spec_dispatch (sample_env [] [] Written) (start_up Absent) ''hello what time is it''
       = (Returned, [Speak ''Hello! How can I help you?''], start_up Absent)
   \<and> ''bye for now hello'' \<noteq> []
   \<and> py_in ''bye'' ''bye for now hello'' \<and> py_in ''hello'' ''bye for now hello''
   \<and> process_command (sample_env [] [] Written) (start_up Absent) ''bye for now hello''
       = (Exited 0, [Speak ''Goodbye. Exiting now.''], start_up Absent)"
proof -
  have h: "py_in ''hello'' ''hello what time is it'' \<and> py_in ''time'' ''hello what time is it''
   \<and> \<not> any_in [''exit'', ''quit'', ''stop'', ''bye''] ''hello what time is it''
   \<and> custom_commands (start_up Absent) ''hello what time is it'' = None"
    by (simp add: any_in_def start_up_def load_custom_commands_def)
  have b: "py_in ''bye'' ''bye for now hello'' \<and> py_in ''hello'' ''bye for now hello''"
    by simp
  have n1: "''hello what time is it'' \<noteq> []" and n2: "''bye for now hello'' \<noteq> []" by simp_all
  from h b n1 n2
    first_match_wins [OF n1, of "sample_env [] [] Written" "start_up Absent"]
    first_match_wins [OF n2, of "sample_env [] [] Written" "start_up Absent"]
  show ?thesis by metis
qed

text \<open>
  The claim as stated is about every utterance. The empty utterance returns at
  once, where the listed order ends in the rule that says it was not understood;
  and an utterance with \<open>hello\<close> and \<open>time\<close> in it resolves to the exit rule, not to
  the greeting, when it has an exit phrase in it too.
\<close>

theorem every_utterance_counterexample:
  "process_command (sample_env [] [] Written) (start_up Absent) [] = (Returned, [], start_up Absent)
   \<and> spec_dispatch (sample_env [] [] Written) (start_up Absent) []
       = (Returned,
          [Speak ''Sorry, I didn't understand that. You can say help to get a list of commands.''],
          start_up Absent)
   \<and> py_in ''hello'' ''stop hello time'' \<and> py_in ''time'' ''stop hello time''
   \<and> process_command (sample_env [] [] Written) (start_up Absent) ''stop hello time''
       = (Exited 0, [Speak ''Goodbye. Exiting now.''], start_up Absent)"
  by (simp add: process_command_def spec_dispatch_def first_match_chain any_in_def
      start_up_def load_custom_commands_def)

section \<open>The keys of the command store\<close>

text \<open>
  Claim C3, as amended. The load at start-up gives the empty mapping for an absent
  and for a corrupt file, and otherwise exactly the keys the file holds: it neither
  checks nor normalises them. Every call of \<open>process_command\<close>, and so every upsert
  of the add-command branch, keeps the invariant: if every key is non-empty,
  lowercase and trimmed before the call, so is every key after it. Hence the
  invariant holds after every operation provided the keys of the loaded file
  satisfy it.
\<close>

theorem store_keys_invariant:
  "normalized_keys (load_custom_commands Absent)
   \<and> normalized_keys (load_custom_commands Corrupt)
   \<and> dom (load_custom_commands (Holds m)) = dom m
   \<and> (normalized_keys (custom_commands s)
       \<longrightarrow> normalized_keys (custom_commands (snd (snd (process_command e s u)))))"
proof -
  have "normalized_keys (custom_commands (snd (snd (process_command e s u))))"
    if inv: "normalized_keys (custom_commands s)"
    using process_command_state [of e s u]
  proof
    assume "snd (snd (process_command e s u)) = s"
    with inv show ?thesis by simp
  next
    assume "snd (snd (process_command e s u)) = snd (snd (add_command_intent e s))"
    with add_command_intent_keeps [OF inv, of e] show ?thesis by simp
  qed
  then show ?thesis
    by (simp add: load_custom_commands_def normalized_keys_def)
qed

text \<open>
  An instance: a store loaded from a file with one good key, then an add-command
  whose trigger is heard with capitals and spaces around it.
\<close>

theorem store_keys_invariant_witness:
  "normalized_keys (custom_commands (start_up (Holds [''good morning'' \<mapsto> ''hello there''])))
   \<and> normalized_keys (custom_commands (snd (snd (process_command
         (sample_env ''  Good Night '' ''Sleep well'' Written)
         (start_up (Holds [''good morning'' \<mapsto> ''hello there''])) ''add command''))))"
proof -
  have "normalized_keys [''good morning'' \<mapsto> ''hello there'']"
    by (simp add: normalized_keys_def good_morning_key)
  then have inv: "normalized_keys
      (custom_commands (start_up (Holds [''good morning'' \<mapsto> ''hello there''])))"
    by (simp add: start_up_def load_custom_commands_def)
  from inv store_keys_invariant
    [of "[''good morning'' \<mapsto> ''hello there'']"
        "start_up (Holds [''good morning'' \<mapsto> ''hello there''])"
        "sample_env ''  Good Night '' ''Sleep well'' Written" "''add command''"]
  show ?thesis by (intro conjI) (erule conjE impE | assumption)+
qed

text \<open>
  As stated the claim covers the load of any persisted file. A file with the key
  \<open>"Hi "\<close> loads as it is, capital and trailing space included.
\<close>

theorem loaded_keys_counterexample:
  "\<not> normalized_keys (load_custom_commands (Holds [''Hi '' \<mapsto> ''hello'']))"
  by (simp add: load_custom_commands_def normalized_keys_def normalized_key_def
      lowercase_def is_upper_def)

section \<open>Parsing the minutes of a reminder\<close>

text \<open>
  Claim C4. In the reminder branch the minutes are the integer value of the
  characters of the second answer that satisfy \<open>isdigit\<close>; every other character
  is dropped without an error. When the answer has no such character, or the
  conversion of the kept characters fails (one of them is no decimal digit, or
  there are more than 4300), the dispatcher says it could not understand the time
  and starts no reminder thread. When the kept characters spell the numeral of
  \<open>n\<close>, possibly after leading zeros, in at most 4300 characters, exactly one
  reminder thread is started, for \<open>n\<close> minutes, and confirmed. These cases are all
  there are.
\<close>

theorem reminder_minutes_parse:
  assumes "reminder_branch s u"
  shows "(filter py_isdigit (listen_vosk e 1) = []
          \<or> \<not> list_all is_decimal (filter py_isdigit (listen_vosk e 1))
          \<or> 4300 < length (filter py_isdigit (listen_vosk e 1))
        \<longrightarrow> process_command e s u =
              (Returned,
               [Speak ''What should I remind you about?'', Listen,
                Speak ''In how many minutes should I remind you?'', Listen,
                Speak ''I couldn't understand the time. Reminder not set.''],
               s)
            \<and> threads (fst (snd (process_command e s u))) = [])
    \<and> (filter py_isdigit (listen_vosk e 1) = replicate k (CHR ''0'') @ dec n
          \<and> length (filter py_isdigit (listen_vosk e 1)) \<le> 4300
        \<longrightarrow> process_command e s u =
              (Returned,
               [Speak ''What should I remind you about?'', Listen,
                Speak ''In how many minutes should I remind you?'', Listen,
                worker e (listen_vosk e 0) (int n),
                Speak (''Reminder set for '' @ dec n @ '' minutes from now.'')],
               s)
            \<and> threads (fst (snd (process_command e s u))) = [worker e (listen_vosk e 0) (int n)])
    \<and> (filter py_isdigit (listen_vosk e 1) \<noteq> []
          \<and> list_all is_decimal (filter py_isdigit (listen_vosk e 1))
        \<longrightarrow> (\<exists>k n. filter py_isdigit (listen_vosk e 1) = replicate k (CHR ''0'') @ dec n))"
proof (intro conjI impI)
  assume "filter py_isdigit (listen_vosk e 1) = []
          \<or> \<not> list_all is_decimal (filter py_isdigit (listen_vosk e 1))
          \<or> 4300 < length (filter py_isdigit (listen_vosk e 1))"
  then have "py_int (filter py_isdigit (listen_vosk e 1)) = Inl ValueError"
    by (rule py_int_refuses)
  with assms have run: "process_command e s u =
              (Returned,
               [Speak ''What should I remind you about?'', Listen,
                Speak ''In how many minutes should I remind you?'', Listen,
                Speak ''I couldn't understand the time. Reminder not set.''],
               s)"
    by (rule reminder_cancelled)
  then show "process_command e s u =
              (Returned,
               [Speak ''What should I remind you about?'', Listen,
                Speak ''In how many minutes should I remind you?'', Listen,
                Speak ''I couldn't understand the time. Reminder not set.''],
               s)" .
  from run show "threads (fst (snd (process_command e s u))) = []" by simp
next
  assume "filter py_isdigit (listen_vosk e 1) = replicate k (CHR ''0'') @ dec n
          \<and> length (filter py_isdigit (listen_vosk e 1)) \<le> 4300"
  then have kept: "filter py_isdigit (listen_vosk e 1) = replicate k (CHR ''0'') @ dec n"
    and "length (filter py_isdigit (listen_vosk e 1)) \<le> 4300"
    by blast+
  then have "length (replicate k (CHR ''0'') @ dec n) \<le> 4300" by (simp only:)
  then have "k + length (dec n) \<le> 4300" by simp
  then have "py_int (filter py_isdigit (listen_vosk e 1)) = Inr (int n)"
    unfolding kept by (rule py_int_numeral)
  with assms have run: "process_command e s u =
              (Returned,
               [Speak ''What should I remind you about?'', Listen,
                Speak ''In how many minutes should I remind you?'', Listen,
                worker e (listen_vosk e 0) (int n),
                Speak (''Reminder set for '' @ py_str (int n) @ '' minutes from now.'')],
               s)"
    by (rule reminder_scheduled)
  then show "process_command e s u =
              (Returned,
               [Speak ''What should I remind you about?'', Listen,
                Speak ''In how many minutes should I remind you?'', Listen,
                worker e (listen_vosk e 0) (int n),
                Speak (''Reminder set for '' @ dec n @ '' minutes from now.'')],
               s)"
    by (simp add: py_str_def)
  from run show "threads (fst (snd (process_command e s u))) = [worker e (listen_vosk e 0) (int n)]"
    by (simp add: threads_worker)
next
  assume "filter py_isdigit (listen_vosk e 1) \<noteq> []
          \<and> list_all is_decimal (filter py_isdigit (listen_vosk e 1))"
  then show "\<exists>k n. filter py_isdigit (listen_vosk e 1) = replicate k (CHR ''0'') @ dec n"
    by (simp add: decimal_numeral)
qed

text \<open>
  Two instances. The answer \<open>in 15 minutes\<close> keeps \<open>15\<close>: a reminder is set for 15
  minutes, 900 seconds. The answer \<open>no idea\<close> keeps nothing: no reminder is set.
\<close>

theorem reminder_minutes_parse_witness:
  "reminder_branch (start_up Absent) ''remind me''
   \<and> filter py_isdigit (listen_vosk (sample_env ''call mom'' ''in 15 minutes'' Written) 1)
       = replicate 0 (CHR ''0'') @ dec 15
   \<and> length (filter py_isdigit (listen_vosk (sample_env ''call mom'' ''in 15 minutes'' Written) 1))
       \<le> 4300
   \<and> filter py_isdigit (listen_vosk (sample_env ''call mom'' ''in 15 minutes'' Written) 1) \<noteq> []
   \<and> list_all is_decimal
       (filter py_isdigit (listen_vosk (sample_env ''call mom'' ''in 15 minutes'' Written) 1))
   \<and> process_command (sample_env ''call mom'' ''in 15 minutes'' Written) (start_up Absent)
       ''remind me''
       = (Returned,
          [Speak ''What should I remind you about?'', Listen,
           Speak ''In how many minutes should I remind you?'', Listen,
           Timer 900 ''Reminder: call mom'',
           Speak ''Reminder set for 15 minutes from now.''],
          start_up Absent)
   \<and> threads (fst (snd (process_command (sample_env ''call mom'' ''in 15 minutes'' Written)
         (start_up Absent) ''remind me''))) = [Timer 900 ''Reminder: call mom'']
   \<and> filter py_isdigit (listen_vosk (sample_env ''call mom'' ''no idea'' Written) 1) = []
   \<and> process_command (sample_env ''call mom'' ''no idea'' Written) (start_up Absent) ''remind me''
       = (Returned,
          [Speak ''What should I remind you about?'', Listen,
           Speak ''In how many minutes should I remind you?'', Listen,
           Speak ''I couldn't understand the time. Reminder not set.''],
          start_up Absent)
   \<and> threads (fst (snd (process_command (sample_env ''call mom'' ''no idea'' Written)
         (start_up Absent) ''remind me''))) = []"
proof -
  let ?e = "sample_env ''call mom'' ''in 15 minutes'' Written"
  let ?f = "sample_env ''call mom'' ''no idea'' Written"
  have d: "filter py_isdigit (listen_vosk ?e 1) = ''15''"
    by (simp add: listen_sample_later digits_in_15_minutes)
  have t: "listen_vosk ?e 0 = ''call mom''"
    by (simp add: listen_sample_first heard_call_mom)
  have w: "worker ?e ''call mom'' (int 15) = Timer 900 ''Reminder: call mom''"
    by (simp add: worker_sleeps sample_clock PY_TIME_MAX_def)
  have f: "filter py_isdigit (listen_vosk ?f 1) = []"
    by (simp add: listen_sample_later digits_no_idea)
  have d1: "filter py_isdigit (listen_vosk ?e 1) = replicate 0 (CHR ''0'') @ dec 15"
    and d2: "length (filter py_isdigit (listen_vosk ?e 1)) \<le> 4300"
    and d3: "filter py_isdigit (listen_vosk ?e 1) \<noteq> []"
    and d4: "list_all is_decimal (filter py_isdigit (listen_vosk ?e 1))"
    unfolding d by (simp_all add: dec_15 is_decimal_def)
  note A = reminder_minutes_parse [OF remind_me_branch, of ?e 0 15]
  note B = reminder_minutes_parse [OF remind_me_branch, of ?f 0 0]
  from A d1 d2 have a: "process_command ?e (start_up Absent) ''remind me'' =
              (Returned,
               [Speak ''What should I remind you about?'', Listen,
                Speak ''In how many minutes should I remind you?'', Listen,
                worker ?e (listen_vosk ?e 0) (int 15),
                Speak (''Reminder set for '' @ dec 15 @ '' minutes from now.'')],
               start_up Absent)
            \<and> threads (fst (snd (process_command ?e (start_up Absent) ''remind me'')))
                = [worker ?e (listen_vosk ?e 0) (int 15)]"
    by blast
  from B f have b: "process_command ?f (start_up Absent) ''remind me'' =
              (Returned,
               [Speak ''What should I remind you about?'', Listen,
                Speak ''In how many minutes should I remind you?'', Listen,
                Speak ''I couldn't understand the time. Reminder not set.''],
               start_up Absent)
            \<and> threads (fst (snd (process_command ?f (start_up Absent) ''remind me''))) = []"
    by blast
  from a have a': "process_command ?e (start_up Absent) ''remind me''
       = (Returned,
          [Speak ''What should I remind you about?'', Listen,
           Speak ''In how many minutes should I remind you?'', Listen,
           Timer 900 ''Reminder: call mom'',
           Speak ''Reminder set for 15 minutes from now.''],
          start_up Absent)
     \<and> threads (fst (snd (process_command ?e (start_up Absent) ''remind me'')))
         = [Timer 900 ''Reminder: call mom'']"
    unfolding t w dec_15 by simp
  from remind_me_branch d1 d2 d3 d4 a' f b show ?thesis by blast
qed

section \<open>Number words are not digits\<close>

text \<open>
  Claim C5 says that the answer \<open>uh twenty\<close> yields 20 minutes. It does not: the
  answer has no digit character, the conversion fails, and no reminder is
  scheduled.
\<close>

theorem uh_twenty_counterexample:
  "py_int (filter py_isdigit (listen_vosk (sample_env ''call mom'' ''uh twenty'' Written) 1))
     = Inl ValueError
   \<and> timers (fst (snd (process_command (sample_env ''call mom'' ''uh twenty'' Written)
         (start_up Absent) ''remind me''))) = []"
  by (simp add: reminder_branch_runs [OF remind_me_branch] reminder_intent_result
      listen_sample_later digits_uh_twenty py_int_def)

text \<open>
  Claim C5, as amended. The answer \<open>uh twenty\<close> has no digit character: the
  dispatcher says it could not understand the time and schedules nothing. The
  answer \<open>uh 20\<close> yields 20, and a reminder is scheduled for 20 minutes (1200
  seconds).
\<close>

theorem uh_twenty_cancelled:
  "process_command (sample_env ''call mom'' ''uh twenty'' Written) (start_up Absent) ''remind me''
     = (Returned,
        [Speak ''What should I remind you about?'', Listen,
         Speak ''In how many minutes should I remind you?'', Listen,
         Speak ''I couldn't understand the time. Reminder not set.''],
        start_up Absent)
   \<and> process_command (sample_env ''call mom'' ''uh 20'' Written) (start_up Absent) ''remind me''
     = (Returned,
        [Speak ''What should I remind you about?'', Listen,
         Speak ''In how many minutes should I remind you?'', Listen,
         Timer 1200 ''Reminder: call mom'',
         Speak ''Reminder set for 20 minutes from now.''],
        start_up Absent)"
  by (simp add: reminder_branch_runs [OF remind_me_branch] reminder_intent_result
      listen_sample_first listen_sample_later heard_call_mom digits_uh_twenty digits_uh_20
      py_int_def INT_MAX_STR_DIGITS_def is_decimal_def digit_val_def py_str_def dec_20
      worker_sleeps sample_clock PY_TIME_MAX_def)

section \<open>The digits of the answer, read as one numeral\<close>

text \<open>
  Claim C10, as amended. When the characters of the answer that satisfy
  \<open>isdigit\<close> are all decimal digits, at least one and at most 4300, that is when
  in their order of appearance they spell a decimal numeral of some \<open>n\<close>, possibly
  after leading zeros, in at most 4300 characters, the parsed minutes are \<open>n\<close>
  whatever stands between the digits: \<open>set_reminder\<close> is called with \<open>n\<close>, and
  when \<open>time.sleep\<close> takes \<open>n\<close> minutes the reminder is pending for \<open>n\<close> minutes.
  So \<open>1 hour 30\<close> gives 130.
\<close>

theorem digits_concatenated:
  assumes "reminder_branch s u"
    and "filter py_isdigit (listen_vosk e 1) = replicate k (CHR ''0'') @ dec n"
    and "k + length (dec n) \<le> 4300"
  shows "py_int (filter py_isdigit (listen_vosk e 1)) = Inr (int n)
    \<and> process_command e s u =
        (Returned,
         [Speak ''What should I remind you about?'', Listen,
          Speak ''In how many minutes should I remind you?'', Listen]
         @ snd (set_reminder e (listen_vosk e 0) (int n)),
         s)
    \<and> (int (monotonic e) + int n * 60 * 1000000000 \<le> PY_TIME_MAX
        \<longrightarrow> process_command e s u =
              (Returned,
               [Speak ''What should I remind you about?'', Listen,
                Speak ''In how many minutes should I remind you?'', Listen,
                Timer (int n * 60) (''Reminder: '' @ listen_vosk e 0),
                Speak (''Reminder set for '' @ dec n @ '' minutes from now.'')],
               s))"
proof -
  have parsed: "py_int (filter py_isdigit (listen_vosk e 1)) = Inr (int n)"
    unfolding assms(2) using assms(3) by (rule py_int_numeral)
  note run = reminder_scheduled [OF assms(1) parsed]
  have "process_command e s u =
        (Returned,
         [Speak ''What should I remind you about?'', Listen,
          Speak ''In how many minutes should I remind you?'', Listen]
         @ snd (set_reminder e (listen_vosk e 0) (int n)),
         s)"
    unfolding run by (simp add: set_reminder_def)
  moreover have "process_command e s u =
              (Returned,
               [Speak ''What should I remind you about?'', Listen,
                Speak ''In how many minutes should I remind you?'', Listen,
                Timer (int n * 60) (''Reminder: '' @ listen_vosk e 0),
                Speak (''Reminder set for '' @ dec n @ '' minutes from now.'')],
               s)" if "int (monotonic e) + int n * 60 * 1000000000 \<le> PY_TIME_MAX"
  proof -
    from that have "int (monotonic e) + max 0 (int n) * 60 * 1000000000 \<le> PY_TIME_MAX"
      by simp
    then have "worker e (listen_vosk e 0) (int n)
        = Timer (max 0 (int n) * 60) (''Reminder: '' @ listen_vosk e 0)"
      by (rule worker_sleeps)
    then show ?thesis unfolding run by (simp add: py_str_def)
  qed
  ultimately show ?thesis using parsed by blast
qed

text \<open>An instance: \<open>1 hour 30\<close> gives 130 minutes, 7800 seconds.\<close>

theorem digits_concatenated_witness:
  "reminder_branch (start_up Absent) ''remind me''
   \<and> filter py_isdigit (listen_vosk (sample_env ''call mom'' ''1 hour 30'' Written) 1)
       = replicate 0 (CHR ''0'') @ dec 130
   \<and> 0 + length (dec 130) \<le> 4300
   \<and> int (monotonic (sample_env ''call mom'' ''1 hour 30'' Written)) + int 130 * 60 * 1000000000
       \<le> PY_TIME_MAX
   \<and> py_int (filter py_isdigit (listen_vosk (sample_env ''call mom'' ''1 hour 30'' Written) 1))
       = Inr 130
   \<and> process_command (sample_env ''call mom'' ''1 hour 30'' Written) (start_up Absent) ''remind me''
       = (Returned,
          [Speak ''What should I remind you about?'', Listen,
           Speak ''In how many minutes should I remind you?'', Listen,
           Timer 7800 ''Reminder: call mom'',
           Speak ''Reminder set for 130 minutes from now.''],
          start_up Absent)"
proof -
  let ?e = "sample_env ''call mom'' ''1 hour 30'' Written"
  have f: "filter py_isdigit (listen_vosk ?e 1) = replicate 0 (CHR ''0'') @ dec 130"
    by (simp add: listen_sample_later digits_1_hour_30 dec_130)
  have l: "0 + length (dec 130) \<le> 4300" by (simp add: dec_130)
  have small: "int (monotonic ?e) + int 130 * 60 * 1000000000 \<le> PY_TIME_MAX"
    by (simp add: sample_clock PY_TIME_MAX_def)
  note T = digits_concatenated [OF remind_me_branch f l]
  from T have "py_int (filter py_isdigit (listen_vosk ?e 1)) = Inr (int 130)" by blast
  then have parsed: "py_int (filter py_isdigit (listen_vosk ?e 1)) = Inr 130" by simp
  from T small have "process_command ?e (start_up Absent) ''remind me'' =
              (Returned,
               [Speak ''What should I remind you about?'', Listen,
                Speak ''In how many minutes should I remind you?'', Listen,
                Timer (int 130 * 60) (''Reminder: '' @ listen_vosk ?e 0),
                Speak (''Reminder set for '' @ dec 130 @ '' minutes from now.'')],
               start_up Absent)"
    by blast
  then have run: "process_command ?e (start_up Absent) ''remind me''
       = (Returned,
          [Speak ''What should I remind you about?'', Listen,
           Speak ''In how many minutes should I remind you?'', Listen,
           Timer 7800 ''Reminder: call mom'',
           Speak ''Reminder set for 130 minutes from now.''],
          start_up Absent)"
    by (simp add: listen_sample_first heard_call_mom dec_130)
  from remind_me_branch f l small parsed run show ?thesis by blast
qed

text \<open>
  As stated the claim covers every answer with a digit character in it. The
  superscript two (0xB2) satisfies \<open>isdigit\<close> but is no decimal digit: the answer
  \<open>5\<close> followed by it keeps both characters, \<open>int\<close> refuses them, and the reminder
  is cancelled, although the answer has the digit 5 in it. And an answer of 4301
  times the digit \<open>1\<close> is kept whole and refused by \<open>int\<close> for its length: the
  reminder is cancelled too.
\<close>

theorem refused_digits_counterexample:
  "filter py_isdigit (listen_vosk (sample_env ''call mom'' [CHR ''5'', CHR 0xB2] Written) 1)
     = [CHR ''5'', CHR 0xB2]
   \<and> process_command (sample_env ''call mom'' [CHR ''5'', CHR 0xB2] Written) (start_up Absent)
       ''remind me''
     = (Returned,
        [Speak ''What should I remind you about?'', Listen,
         Speak ''In how many minutes should I remind you?'', Listen,
         Speak ''I couldn't understand the time. Reminder not set.''],
        start_up Absent)
   \<and> filter py_isdigit
       (listen_vosk (sample_env ''call mom'' (replicate 4301 (CHR ''1'')) Written) 1)
     = replicate 4301 (CHR ''1'')
   \<and> process_command (sample_env ''call mom'' (replicate 4301 (CHR ''1'')) Written)
       (start_up Absent) ''remind me''
     = (Returned,
        [Speak ''What should I remind you about?'', Listen,
         Speak ''In how many minutes should I remind you?'', Listen,
         Speak ''I couldn't understand the time. Reminder not set.''],
        start_up Absent)"
proof -
  let ?a = "replicate 4301 (CHR ''1'')"
  let ?e = "sample_env ''call mom'' ?a Written"
  have ones: "list_all is_decimal ?a"
    by (simp only: list_all_iff set_replicate_conv_if) (simp add: is_decimal_def)
  have heard: "listen_vosk ?e 1 = py_lower (py_strip ?a)"
    by (rule listen_sample_later) simp
  have kept: "filter py_isdigit (listen_vosk ?e 1) = ?a"
    unfolding heard using ones by (rule decimal_answer)
  have "py_int ?a = Inl ValueError"
  proof (rule py_int_refuses, intro disjI2)
    show "4300 < length ?a" by (simp only: length_replicate)
  qed
  with kept have "py_int (filter py_isdigit (listen_vosk ?e 1)) = Inl ValueError"
    by (simp only:)
  with remind_me_branch have long: "process_command ?e (start_up Absent) ''remind me''
     = (Returned,
        [Speak ''What should I remind you about?'', Listen,
         Speak ''In how many minutes should I remind you?'', Listen,
         Speak ''I couldn't understand the time. Reminder not set.''],
        start_up Absent)"
    by (rule reminder_cancelled)
  have short: "filter py_isdigit
        (listen_vosk (sample_env ''call mom'' [CHR ''5'', CHR 0xB2] Written) 1)
       = [CHR ''5'', CHR 0xB2]
     \<and> process_command (sample_env ''call mom'' [CHR ''5'', CHR 0xB2] Written) (start_up Absent)
         ''remind me''
       = (Returned,
          [Speak ''What should I remind you about?'', Listen,
           Speak ''In how many minutes should I remind you?'', Listen,
           Speak ''I couldn't understand the time. Reminder not set.''],
          start_up Absent)"
    by (simp add: reminder_branch_runs [OF remind_me_branch] reminder_intent_result
        listen_sample_later digits_5_squared py_int_def is_decimal_def)
  from short kept long show ?thesis by (simp only: simp_thms)
qed

section \<open>The delay of a reminder\<close>




section \<open>The city of a weather question\<close>

text \<open>
  Claim C7 is about every utterance with \<open>weather\<close> and the separator in it. The
  utterance \<open>weather in delhi\<close> has both, and \<open>hi\<close> too: the greeting rule comes
  first, and no weather is looked up.
\<close>

theorem weather_in_delhi_counterexample:
  "py_in ''weather'' ''weather in delhi'' \<and> py_in '' in '' ''weather in delhi''
   \<and> process_command (sample_env [] [] Written) (start_up Absent) ''weather in delhi''
       = (Returned, [Speak ''Hello! How can I help you?''], start_up Absent)"
  by (simp add: process_command_def any_in_def start_up_def load_custom_commands_def)

text \<open>
  Claim C7, as amended. Take an utterance that gets to the weather rule: it is
  not empty, has no exit phrase in it, is not a key of the custom commands, has
  none of the greeting words, \<open>time\<close> and \<open>date\<close> in it, and has \<open>weather\<close> in it.
  If the separator \<open>" in "\<close> occurs in it, the city looked up is the text after
  the first occurrence of the separator, trimmed, and nothing is spoken or asked
  by the dispatcher; every utterance with the separator in it splits in this way.
  If the separator does not occur, the dispatcher asks for the city and listens:
  the city looked up is the answer, or the default city \<open>Chennai\<close> when the answer
  is empty.
\<close>

theorem weather_city:
  assumes "weather_branch s u"
  shows "(py_in '' in '' u
           \<longrightarrow> (\<exists>a b. u = a @ '' in '' @ b \<and> \<not> py_in '' in '' (a @ '' in'')))
    \<and> (\<forall>a b. u = a @ '' in '' @ b \<and> \<not> py_in '' in '' (a @ '' in'')
           \<longrightarrow> process_command e s u = (Returned, [Weather (py_strip b)], s))
    \<and> (\<not> py_in '' in '' u
           \<longrightarrow> process_command e s u =
               (Returned,
                [Speak ''Which city do you want the weather for?'', Listen,
                 Weather (if listen_vosk e 0 = [] then ''Chennai'' else listen_vosk e 0)],
                s))"
proof (intro conjI impI allI)
  assume "py_in '' in '' u"
  with first_sep_exists [of "'' in ''" u]
  show "\<exists>a b. u = a @ '' in '' @ b \<and> \<not> py_in '' in '' (a @ '' in'')" by simp
next
  fix a b
  assume "u = a @ '' in '' @ b \<and> \<not> py_in '' in '' (a @ '' in'')"
  then show "process_command e s u = (Returned, [Weather (py_strip b)], s)"
    using weather_branch_runs [OF assms, of e] weather_intent_city [of a e s b] by simp
next
  assume "\<not> py_in '' in '' u"
  then show "process_command e s u =
               (Returned,
                [Speak ''Which city do you want the weather for?'', Listen,
                 Weather (if listen_vosk e 0 = [] then ''Chennai'' else listen_vosk e 0)],
                s)"
    by (simp add: weather_branch_runs [OF assms] weather_intent_def DEFAULT_CITY_def)
qed

text \<open>
  Four instances: \<open>weather in Paris\<close> looks up \<open>Paris\<close>; with two separators the
  first one counts; \<open>weather\<close> with a blank answer to the question looks up the
  default city, and with the answer \<open>Mumbai\<close> the city as it was heard.
\<close>

theorem weather_city_witness:
  "weather_branch (start_up Absent) ''weather in Paris''
   \<and> py_in '' in '' ''weather in Paris''
   \<and> ''weather in Paris'' = ''weather'' @ '' in '' @ ''Paris''
   \<and> \<not> py_in '' in '' (''weather'' @ '' in'')
   \<and> process_command (sample_env [] [] Written) (start_up Absent) ''weather in Paris''
       = (Returned, [Weather ''Paris''], start_up Absent)
   \<and> weather_branch (start_up Absent) ''weather in paris in france''
   \<and> ''weather in paris in france'' = ''weather'' @ '' in '' @ ''paris in france''
   \<and> process_command (sample_env [] [] Written) (start_up Absent) ''weather in paris in france''
       = (Returned, [Weather ''paris in france''], start_up Absent)
   \<and> weather_branch (start_up Absent) ''weather''
   \<and> \<not> py_in '' in '' ''weather''
   \<and> process_command (sample_env ''  '' [] Written) (start_up Absent) ''weather''
       = (Returned,
          [Speak ''Which city do you want the weather for?'', Listen, Weather ''Chennai''],
          start_up Absent)
   \<and> process_command (sample_env '' Mumbai '' [] Written) (start_up Absent) ''weather''
       = (Returned,
          [Speak ''Which city do you want the weather for?'', Listen, Weather ''mumbai''],
          start_up Absent)"
proof -
  have b1: "weather_branch (start_up Absent) ''weather in Paris''"
    and b2: "weather_branch (start_up Absent) ''weather''"
    and b3: "weather_branch (start_up Absent) ''weather in paris in france''"
    by (simp_all add: weather_branch_def past_date_def past_custom_def any_in_def
        start_up_def load_custom_commands_def)
  have p: "py_in '' in '' ''weather in Paris''"
    and q: "''weather in Paris'' = ''weather'' @ '' in '' @ ''Paris''"
    and q3: "''weather in paris in france'' = ''weather'' @ '' in '' @ ''paris in france''"
    and r: "\<not> py_in '' in '' (''weather'' @ '' in'')"
    and n: "\<not> py_in '' in '' ''weather''"
    by simp_all
  have strip: "py_strip ''Paris'' = ''Paris''"
    and strip3: "py_strip ''paris in france'' = ''paris in france''"
    by (simp_all add: py_strip_def py_isspace_def)
  have blank: "listen_vosk (sample_env ''  '' [] Written) 0 = []"
    by (simp add: listen_sample_first heard_blank)
  have mumbai: "listen_vosk (sample_env '' Mumbai '' [] Written) 0 = ''mumbai''"
    by (simp add: listen_sample_first py_strip_def py_isspace_def py_lower_def lower_char_def
        is_upper_def)
  from weather_city [OF b1, of "sample_env [] [] Written"] q r
  have "process_command (sample_env [] [] Written) (start_up Absent) ''weather in Paris''
       = (Returned, [Weather (py_strip ''Paris'')], start_up Absent)"
    by blast
  then have one: "process_command (sample_env [] [] Written) (start_up Absent) ''weather in Paris''
       = (Returned, [Weather ''Paris''], start_up Absent)"
    by (simp only: strip)
  from weather_city [OF b3, of "sample_env [] [] Written"] q3 r
  have "process_command (sample_env [] [] Written) (start_up Absent) ''weather in paris in france''
       = (Returned, [Weather (py_strip ''paris in france'')], start_up Absent)"
    by blast
  then have three: "process_command (sample_env [] [] Written) (start_up Absent)
        ''weather in paris in france''
       = (Returned, [Weather ''paris in france''], start_up Absent)"
    by (simp only: strip3)
  from weather_city [OF b2, of "sample_env ''  '' [] Written"] n
  have "process_command (sample_env ''  '' [] Written) (start_up Absent) ''weather''
       = (Returned,
          [Speak ''Which city do you want the weather for?'', Listen,
           Weather (if listen_vosk (sample_env ''  '' [] Written) 0 = [] then ''Chennai''
                    else listen_vosk (sample_env ''  '' [] Written) 0)],
          start_up Absent)"
    by blast
  then have two: "process_command (sample_env ''  '' [] Written) (start_up Absent) ''weather''
       = (Returned,
          [Speak ''Which city do you want the weather for?'', Listen, Weather ''Chennai''],
          start_up Absent)"
    by (simp add: blank)
  from weather_city [OF b2, of "sample_env '' Mumbai '' [] Written"] n
  have "process_command (sample_env '' Mumbai '' [] Written) (start_up Absent) ''weather''
       = (Returned,
          [Speak ''Which city do you want the weather for?'', Listen,
           Weather (if listen_vosk (sample_env '' Mumbai '' [] Written) 0 = [] then ''Chennai''
                    else listen_vosk (sample_env '' Mumbai '' [] Written) 0)],
          start_up Absent)"
    by blast
  then have four: "process_command (sample_env '' Mumbai '' [] Written) (start_up Absent) ''weather''
       = (Returned,
          [Speak ''Which city do you want the weather for?'', Listen, Weather ''mumbai''],
          start_up Absent)"
    by (simp add: mumbai)
  from b1 p q r one b3 q3 three b2 n two four show ?thesis by blast
qed

section \<open>Saving and loading a custom command\<close>




section \<open>Cancelling the addition of a command\<close>



end
